theory Spec2Isabelle
  imports Complex_Main "HOL-Library.Sublist"
begin

section \<open>The camera screen of src/App.tsx\<close>

text \<open>
  \<^verbatim>\<open>App\<close> is one React component. Its four \<^verbatim>\<open>useState\<close> cells are the session
  state; the handlers are modelled by explicit state passing, each returning the new
  session together with the calls it makes on the camera, the file system, the console
  and \<^verbatim>\<open>Alert\<close>, in the order of the source. What an awaited call of a library does
  (return or throw) is an argument of the handler that awaits it.
\<close>

subsection \<open>Session state\<close>

datatype facing = Front | Back

text \<open>
  \<^verbatim>\<open>zoom\<close> is a JavaScript number. It is modelled as a real; the rounding that every
  floating-point addition and every decimal literal goes through is the argument
  \<open>rnd\<close> of the two zoom handlers.
\<close>

record session =
  cameraType :: facing
  zoom :: real
  mediaUri :: "string option"
  isRecording :: bool

definition initial_session :: session where
  "initial_session = \<lparr>cameraType = Back, zoom = 0, mediaUri = None, isRecording = False\<rparr>"

subsection \<open>Calls on the outside world\<close>

type_synonym error = string

datatype effect =
    CameraStartRecording
  | CameraStopRecording
  | CameraTakePhoto
  | Mkdir string
  | MoveFile string string
  | ConsoleError string error
  | Alert string string

text \<open>
  What the three awaited calls of \<^verbatim>\<open>takePhoto\<close> do, the constant
  \<^verbatim>\<open>RNFS.DocumentDirectoryPath\<close>, and the string \<^verbatim>\<open>new Date().toISOString()\<close> returns.
  \<open>Inl e\<close> and \<open>Some e\<close> are a throw of \<open>e\<close>.
\<close>

record capture_io =
  takePhoto_result :: "error + string"
  DocumentDirectoryPath :: string
  mkdir_result :: "error option"
  toISOString :: string
  moveFile_result :: "error option"

subsection \<open>Lens and zoom\<close>

definition toggleCameraType :: "session \<Rightarrow> session" where
  "toggleCameraType s =
     s\<lparr>cameraType := (if cameraType s = Back then Front else Back)\<rparr>"

definition zoomIn :: "(real \<Rightarrow> real) \<Rightarrow> session \<Rightarrow> session" where
  "zoomIn rnd s = s\<lparr>zoom := min (rnd (zoom s + rnd (1 / 10))) 1\<rparr>"

definition zoomOut :: "(real \<Rightarrow> real) \<Rightarrow> session \<Rightarrow> session" where
  "zoomOut rnd s = s\<lparr>zoom := max (rnd (zoom s - rnd (1 / 10))) 0\<rparr>"

datatype zoom_tap = TapZoomIn | TapZoomOut

fun zoom_taps :: "(real \<Rightarrow> real) \<Rightarrow> zoom_tap list \<Rightarrow> session \<Rightarrow> session" where
  "zoom_taps rnd [] s = s"
| "zoom_taps rnd (TapZoomIn # ts) s = zoom_taps rnd ts (zoomIn rnd s)"
| "zoom_taps rnd (TapZoomOut # ts) s = zoom_taps rnd ts (zoomOut rnd s)"

text \<open>
  What the proofs need of the rounding: it is monotone and leaves 0 and 1, which are
  numbers of the format, alone. Rounding to nearest of IEEE 754 is such a function.
\<close>

definition rounding :: "(real \<Rightarrow> real) \<Rightarrow> bool" where
  "rounding rnd = (mono rnd \<and> rnd 0 = 0 \<and> rnd 1 = 1)"

text \<open>
  A rounding to compute with: to the nearest multiple of \<open>2\<^sup>-\<^sup>1\<^sup>0\<close>, a binary format
  in which \<open>1 / 10\<close> is not a number, as it is not one in IEEE 754.
\<close>

definition grid :: "real \<Rightarrow> real" where
  "grid x = of_int (round (x * 1024)) / 1024"

subsection \<open>Recording\<close>

text \<open>
  The first argument of a handler is \<^verbatim>\<open>cameraRef.current\<close> read as a condition: whether
  the ref holds a camera. The second is what the awaited camera call does.
\<close>

definition startRecording :: "bool \<Rightarrow> error option \<Rightarrow> session \<Rightarrow> session \<times> effect list" where
  "startRecording cameraRef_current started s =
     (if cameraRef_current then
        (let s1 = s\<lparr>isRecording := True\<rparr> in
         case started of
           None \<Rightarrow> (s1, [CameraStartRecording])
         | Some e \<Rightarrow>
             (s1\<lparr>isRecording := False\<rparr>,
              [CameraStartRecording,
               ConsoleError ''Failed to start recording:'' e,
               Alert ''Error'' ''Failed to start recording.'']))
      else (s, []))"

text \<open>The two callbacks handed to the camera in \<^verbatim>\<open>options\<close>.\<close>

definition onRecordingFinished :: "string \<Rightarrow> session \<Rightarrow> session \<times> effect list" where
  "onRecordingFinished video_path s =
     (s\<lparr>mediaUri := Some (''file://'' @ video_path), isRecording := False\<rparr>, [])"

definition onRecordingError :: "error \<Rightarrow> session \<Rightarrow> session \<times> effect list" where
  "onRecordingError e s =
     (s\<lparr>isRecording := False\<rparr>,
      [ConsoleError ''Failed to record video:'' e,
       Alert ''Error'' ''Failed to record video.''])"

definition stopRecording :: "bool \<Rightarrow> error option \<Rightarrow> session \<Rightarrow> session \<times> effect list" where
  "stopRecording cameraRef_current stopped s =
     (if cameraRef_current \<and> isRecording s then
        (case stopped of
           None \<Rightarrow> (s, [CameraStopRecording])
         | Some e \<Rightarrow>
             (s,
              [CameraStopRecording,
               ConsoleError ''Failed to stop recording:'' e,
               Alert ''Error'' ''Failed to stop recording.'']))
      else (s, []))"

text \<open>
  The session after a whole recording: the Record Video button, the Stop Recording
  button, then the camera calling \<^verbatim>\<open>onRecordingFinished\<close> with the video's path.
\<close>

definition record_stop_finished :: "string \<Rightarrow> session \<Rightarrow> session" where
  "record_stop_finished video_path s =
     fst (onRecordingFinished video_path
       (fst (stopRecording True None (fst (startRecording True None s)))))"

subsection \<open>Photo capture\<close>

definition photo_failed :: "error \<Rightarrow> effect list" where
  "photo_failed e =
     [ConsoleError ''Failed to take photo:'' e, Alert ''Error'' ''Failed to capture photo.'']"

definition takePhoto :: "bool \<Rightarrow> capture_io \<Rightarrow> session \<Rightarrow> session \<times> effect list" where
  "takePhoto cameraRef_current io s =
     (if cameraRef_current then
        (case takePhoto_result io of
           Inl e \<Rightarrow> (s, [CameraTakePhoto] @ photo_failed e)
         | Inr filePath \<Rightarrow>
             (let captureFolderPath = DocumentDirectoryPath io @ ''/capture'' in
              case mkdir_result io of
                Some e \<Rightarrow> (s, [CameraTakePhoto, Mkdir captureFolderPath] @ photo_failed e)
              | None \<Rightarrow>
                  (let newFilePath = captureFolderPath @ ''/'' @ toISOString io @ ''.jpg'' in
                   case moveFile_result io of
                     Some e \<Rightarrow>
                       (s, [CameraTakePhoto, Mkdir captureFolderPath,
                            MoveFile filePath newFilePath] @ photo_failed e)
                   | None \<Rightarrow>
                       (s\<lparr>mediaUri := Some (''file://'' @ newFilePath)\<rparr>,
                        [CameraTakePhoto, Mkdir captureFolderPath,
                         MoveFile filePath newFilePath]))))
      else (s, []))"

text \<open>The three ways the \<^verbatim>\<open>try\<close> block of \<^verbatim>\<open>takePhoto\<close> can throw, and the one way it cannot.\<close>

definition capture_throws :: "capture_io \<Rightarrow> bool" where
  "capture_throws io =
     (isl (takePhoto_result io) \<or> mkdir_result io \<noteq> None \<or> moveFile_result io \<noteq> None)"

definition capture_succeeds :: "capture_io \<Rightarrow> bool" where
  "capture_succeeds io =
     (\<not> isl (takePhoto_result io) \<and> mkdir_result io = None \<and> moveFile_result io = None)"

subsection \<open>The Back button\<close>

definition clearCapture :: "session \<Rightarrow> session" where
  "clearCapture s = s\<lparr>mediaUri := None\<rparr>"

subsection \<open>The rendered view\<close>

text \<open>\<^verbatim>\<open>String.prototype.endsWith\<close> with one argument.\<close>

definition endsWith :: "string \<Rightarrow> string \<Rightarrow> bool" where
  "endsWith str searchString =
     (length searchString \<le> length str \<and>
      drop (length str - length searchString) str = searchString)"

text \<open>A \<^verbatim>\<open>string | null\<close> used as a condition: \<^verbatim>\<open>null\<close> and the empty string are falsy.\<close>

definition truthy :: "string option \<Rightarrow> bool" where
  "truthy m = (case m of None \<Rightarrow> False | Some u \<Rightarrow> u \<noteq> [])"

type_synonym camera_device = nat

record hooks =
  hasPermission :: bool
  useCameraDevice :: "facing \<Rightarrow> camera_device option"

text \<open>
  The element filling the screen: \<open>Image uri\<close>, \<open>Video uri controls\<close>, or
  \<open>Camera device isActive zoom\<close>.
\<close>

datatype element =
    Image string
  | Video string bool
  | Camera camera_device bool real

datatype button =
    Switch | ZoomIn | ZoomOut | StopRecording | RecordVideo | CapturePhoto | GoBack

datatype view = Message string | Screen element "button list"

definition App :: "hooks \<Rightarrow> session \<Rightarrow> view" where
  "App h s =
     (if \<not> hasPermission h then Message ''Please grant camera permission.''
      else case useCameraDevice h (cameraType s) of
        None \<Rightarrow> Message ''No camera available.''
      | Some device \<Rightarrow>
          Screen
            (case mediaUri s of
               None \<Rightarrow> Camera device True (zoom s)
             | Some uri \<Rightarrow>
                 if uri = [] then Camera device True (zoom s)
                 else if endsWith uri ''.jpg'' then Image uri
                 else Video uri True)
            ((if \<not> truthy (mediaUri s) then
                [Switch, ZoomIn, ZoomOut,
                 (if isRecording s then StopRecording else RecordVideo),
                 CapturePhoto]
              else []) @
             (if truthy (mediaUri s) then [GoBack] else [])))"

fun buttons :: "view \<Rightarrow> button list" where
  "buttons (Message _) = []"
| "buttons (Screen _ bs) = bs"

fun camera_mounted :: "view \<Rightarrow> bool" where
  "camera_mounted (Screen (Camera _ _ _) _) = True"
| "camera_mounted _ = False"

fun video_player_shown :: "view \<Rightarrow> bool" where
  "video_player_shown (Screen (Video _ controls) _) = controls"
| "video_player_shown _ = False"

subsection \<open>The camera's video files\<close>

text \<open>
  Modelled from the spec: the recorder of the camera capability, a library outside this
  repository, of which \<^verbatim>\<open>App.tsx\<close> holds only the two callbacks it hands over. The
  spec's interface is \<^verbatim>\<open>startRecording({onFinished(path), onError(err)})\<close>, and its data
  model makes the filename suffix the kind of a captured asset, \<^verbatim>\<open>.jpg\<close> being the
  image. So the path the recorder reports for a finished video is a path that does not
  end with \<^verbatim>\<open>.jpg\<close>.
\<close>

definition video_file_path :: "string \<Rightarrow> bool" where
  "video_file_path path = (\<not> endsWith path ''.jpg'')"

subsection \<open>Concrete sessions used below\<close>

definition recording_session :: session where
  "recording_session = fst (startRecording True None initial_session)"

definition photo_ok :: capture_io where
  "photo_ok =
     \<lparr>takePhoto_result = Inr ''/tmp/p1.jpg'',
      DocumentDirectoryPath = ''/data/files'',
      mkdir_result = None,
      toISOString = ''2024-05-01T10:20:30.123Z'',
      moveFile_result = None\<rparr>"

definition move_throws :: capture_io where
  "move_throws = photo_ok\<lparr>moveFile_result := Some ''ENOENT''\<rparr>"

definition photo_session :: session where
  "photo_session = fst (takePhoto True photo_ok initial_session)"

definition video_session :: session where
  "video_session = record_stop_finished ''/tmp/v.mov'' initial_session"

definition granted :: hooks where
  "granted = \<lparr>hasPermission = True, useCameraDevice = (\<lambda>_. Some 0)\<rparr>"

definition denied :: hooks where
  "denied = \<lparr>hasPermission = False, useCameraDevice = (\<lambda>_. Some 0)\<rparr>"

section \<open>Properties\<close>

subsection \<open>Lens and zoom\<close>

text \<open>
  C7. Toggling the lens facing twice, from either facing, gives back the original
  facing; nothing else of the session changes either.
\<close>

theorem toggleCameraType_twice:
  "toggleCameraType (toggleCameraType s) = s
   \<and> cameraType (toggleCameraType (toggleCameraType s)) = cameraType s"
  by (cases "cameraType s") (simp_all add: toggleCameraType_def)

lemma rounding_grid: "rounding grid"
  unfolding rounding_def grid_def mono_def
  by (auto simp: divide_right_mono round_mono)

lemma rounding_step_nonneg:
  assumes "rounding rnd"
  shows "0 \<le> rnd (1 / 10)"
proof -
  from assms have m: "mono rnd" and z: "rnd 0 = 0" by (simp_all add: rounding_def)
  from m have "rnd 0 \<le> rnd (1 / 10)" by (rule monoD) simp
  with z show ?thesis by simp
qed

lemma zoomIn_bounds:
  assumes "rounding rnd" and "0 \<le> zoom s"
  shows "0 \<le> zoom (zoomIn rnd s) \<and> zoom (zoomIn rnd s) \<le> 1"
proof -
  from assms(1) have m: "mono rnd" and z: "rnd 0 = 0" by (simp_all add: rounding_def)
  have "0 \<le> zoom s + rnd (1 / 10)"
    using rounding_step_nonneg [OF assms(1)] assms(2) by simp
  with m have "rnd 0 \<le> rnd (zoom s + rnd (1 / 10))" by (rule monoD)
  with z show ?thesis by (simp add: zoomIn_def)
qed

lemma zoomOut_bounds:
  assumes "rounding rnd" and "zoom s \<le> 1"
  shows "0 \<le> zoom (zoomOut rnd s) \<and> zoom (zoomOut rnd s) \<le> 1"
proof -
  from assms(1) have m: "mono rnd" and o: "rnd 1 = 1" by (simp_all add: rounding_def)
  have "zoom s - rnd (1 / 10) \<le> 1"
    using rounding_step_nonneg [OF assms(1)] assms(2) by simp
  with m have "rnd (zoom s - rnd (1 / 10)) \<le> rnd 1" by (rule monoD)
  with o show ?thesis by (simp add: zoomOut_def)
qed

text \<open>
  C3. From a zoom in \<open>[0, 1]\<close>, any finite sequence of \<^verbatim>\<open>zoomIn\<close> and \<^verbatim>\<open>zoomOut\<close> ends
  with a zoom in \<open>[0, 1]\<close>, whatever the rounding of the number format does between
  the exact sum and the stored value.
\<close>

theorem zoom_taps_in_unit_interval:
  assumes "rounding rnd" and "0 \<le> zoom s" and "zoom s \<le> 1"
  shows "0 \<le> zoom (zoom_taps rnd ts s) \<and> zoom (zoom_taps rnd ts s) \<le> 1"
  using assms(2,3)
proof (induction ts arbitrary: s)
  case Nil
  then show ?case by simp
next
  case (Cons t ts)
  show ?case
  proof (cases t)
    case TapZoomIn
    have "0 \<le> zoom (zoomIn rnd s) \<and> zoom (zoomIn rnd s) \<le> 1"
      using assms(1) Cons.prems(1) by (rule zoomIn_bounds)
    then show ?thesis using Cons.IH [of "zoomIn rnd s"] TapZoomIn by simp
  next
    case TapZoomOut
    have "0 \<le> zoom (zoomOut rnd s) \<and> zoom (zoomOut rnd s) \<le> 1"
      using assms(1) Cons.prems(2) by (rule zoomOut_bounds)
    then show ?thesis using Cons.IH [of "zoomOut rnd s"] TapZoomOut by simp
  qed
qed

theorem zoom_taps_in_unit_interval_witness:
  "rounding grid
   \<and> 0 \<le> zoom (initial_session\<lparr>zoom := 19 / 20\<rparr>)
   \<and> zoom (initial_session\<lparr>zoom := 19 / 20\<rparr>) \<le> 1
   \<and> zoom (zoom_taps grid [TapZoomIn, TapZoomIn, TapZoomOut]
        (initial_session\<lparr>zoom := 19 / 20\<rparr>)) = 461 / 512
   \<and> 0 \<le> zoom (zoom_taps grid [TapZoomIn, TapZoomIn, TapZoomOut]
        (initial_session\<lparr>zoom := 19 / 20\<rparr>))
   \<and> zoom (zoom_taps grid [TapZoomIn, TapZoomIn, TapZoomOut]
        (initial_session\<lparr>zoom := 19 / 20\<rparr>)) \<le> 1"
proof -
  have v: "zoom (zoom_taps grid [TapZoomIn, TapZoomIn, TapZoomOut]
      (initial_session\<lparr>zoom := 19 / 20\<rparr>)) = 461 / 512"
    by (simp add: zoomIn_def zoomOut_def initial_session_def grid_def round_def)
  have lo: "0 \<le> zoom (initial_session\<lparr>zoom := 19 / 20\<rparr>)" by simp
  have hi: "zoom (initial_session\<lparr>zoom := 19 / 20\<rparr>) \<le> 1" by simp
  show ?thesis
    using zoom_taps_in_unit_interval [OF rounding_grid lo hi,
        of "[TapZoomIn, TapZoomIn, TapZoomOut]"] rounding_grid lo hi v
    by simp
qed

subsection \<open>Recording\<close>

text \<open>
  C10. \<^verbatim>\<open>stopRecording\<close> with the recording flag false leaves the whole session as it
  was and makes no call at all, so none on the camera, whether or not the camera ref is
  set and whatever the camera's stop would have done.
\<close>

theorem stopRecording_idle:
  assumes "\<not> isRecording s"
  shows "stopRecording cameraRef_current stopped s = (s, [])"
  using assms by (simp add: stopRecording_def)

theorem stopRecording_idle_witness:
  "\<not> isRecording initial_session
   \<and> stopRecording True None initial_session = (initial_session, [])"
  using stopRecording_idle [of initial_session True None]
  by (simp add: initial_session_def)

lemma recording_session_eq:
  "recording_session = \<lparr>cameraType = Back, zoom = 0, mediaUri = None, isRecording = True\<rparr>"
  by (simp add: recording_session_def startRecording_def initial_session_def)

text \<open>
  C1, as stated, fails: \<^verbatim>\<open>startRecording\<close> does not read the recording flag. In the
  session that one successful \<^verbatim>\<open>startRecording\<close> leaves, with the flag true, a second
  call with the camera ref set calls the camera's \<^verbatim>\<open>startRecording\<close> again, and when
  that call throws the flag is cleared, so the session changes too.
\<close>

theorem startRecording_again_counterexample:
  "isRecording recording_session
   \<and> snd (startRecording True None recording_session) = [CameraStartRecording]
   \<and> CameraStartRecording \<in> set (snd (startRecording True (Some ''busy'') recording_session))
   \<and> fst (startRecording True (Some ''busy'') recording_session) \<noteq> recording_session"
  by (simp add: recording_session_eq startRecording_def)

text \<open>
  C1, amended. While the recording flag is true the rendered view has no Record Video
  button, the one control whose \<^verbatim>\<open>onPress\<close> is \<^verbatim>\<open>startRecording\<close>; and a call of
  \<^verbatim>\<open>startRecording\<close> in such a session leaves the session as it was when the camera's
  start call returns normally or the camera ref is not set.
\<close>

theorem startRecording_gated_by_view:
  assumes "isRecording s"
  shows "RecordVideo \<notin> set (buttons (App h s))
         \<and> fst (startRecording cameraRef_current None s) = s
         \<and> startRecording False started s = (s, [])"
  using assms
  by (simp add: App_def startRecording_def split: option.splits)

theorem startRecording_gated_by_view_witness:
  "isRecording recording_session
   \<and> buttons (App granted recording_session)
       = [Switch, ZoomIn, ZoomOut, StopRecording, CapturePhoto]
   \<and> RecordVideo \<notin> set (buttons (App granted recording_session))
   \<and> fst (startRecording True None recording_session) = recording_session
   \<and> startRecording False None recording_session = (recording_session, [])"
  using startRecording_gated_by_view [of recording_session granted True None]
  by (simp add: recording_session_eq App_def granted_def truthy_def)

text \<open>
  C6. Both ways a recording fails clear the recording flag, show an error alert and
  leave the captured-media reference as it was: the camera's \<^verbatim>\<open>startRecording\<close>
  throwing inside the handler (the camera ref is then set, or the call would not have
  been made), and the \<^verbatim>\<open>onRecordingError\<close> callback.
\<close>

theorem recording_failure_clears_flag:
  "\<not> isRecording (fst (startRecording True (Some e) s))
   \<and> mediaUri (fst (startRecording True (Some e) s)) = mediaUri s
   \<and> Alert ''Error'' ''Failed to start recording.'' \<in> set (snd (startRecording True (Some e) s))
   \<and> \<not> isRecording (fst (onRecordingError e s))
   \<and> mediaUri (fst (onRecordingError e s)) = mediaUri s
   \<and> Alert ''Error'' ''Failed to record video.'' \<in> set (snd (onRecordingError e s))"
  by (simp add: startRecording_def onRecordingError_def)

subsection \<open>Suffixes\<close>

lemma endsWith_suffix: "endsWith str t = suffix t str"
proof
  assume "endsWith str t"
  then have "str = take (length str - length t) str @ t"
    by (metis append_take_drop_id endsWith_def)
  then show "suffix t str" unfolding suffix_def by blast
next
  assume "suffix t str"
  then obtain zs where "str = zs @ t" unfolding suffix_def by blast
  then show "endsWith str t" by (simp add: endsWith_def)
qed

lemma endsWith_append_jpg: "endsWith (p @ ''.jpg'') ''.jpg''"
  by (simp add: endsWith_def)

text \<open>The prefix \<^verbatim>\<open>file://\<close> has no dot, so it does not change whether a path ends in \<^verbatim>\<open>.jpg\<close>.\<close>

lemma endsWith_file_uri: "endsWith (''file://'' @ p) ''.jpg'' = endsWith p ''.jpg''"
proof
  assume "endsWith p ''.jpg''"
  then show "endsWith (''file://'' @ p) ''.jpg''"
    unfolding endsWith_suffix by (rule suffix_appendI)
next
  assume "endsWith (''file://'' @ p) ''.jpg''"
  then have "suffix ''.jpg'' (''file://'' @ p)" by (simp only: endsWith_suffix)
  then consider "suffix ''.jpg'' p"
    | xs where "''.jpg'' = xs @ p" and "suffix xs ''file://''"
    unfolding suffix_append by blast
  then show "endsWith p ''.jpg''"
  proof cases
    case 1
    then show ?thesis by (simp only: endsWith_suffix)
  next
    case 2
    show ?thesis
    proof (cases xs)
      case Nil
      with 2 show ?thesis by (simp add: endsWith_def)
    next
      case (Cons c cs)
      with 2 have "c = CHR ''.''" by simp
      moreover from 2 have "set xs \<subseteq> set ''file://''" by (rule_tac set_mono_suffix)
      ultimately show ?thesis using Cons by auto
    qed
  qed
qed

subsection \<open>Photo capture\<close>

text \<open>
  C2. When the photo capture, the directory creation or the file move throws (the
  camera ref is then set, or no step would have run), the session after \<^verbatim>\<open>takePhoto\<close>
  is the session before it, so the captured-media reference (null if it was null) and
  the recording flag are unchanged, and the alert "Failed to capture photo." is among
  the calls made.
\<close>

theorem takePhoto_failure_keeps_session:
  assumes "capture_throws io"
  shows "fst (takePhoto True io s) = s
         \<and> mediaUri (fst (takePhoto True io s)) = mediaUri s
         \<and> isRecording (fst (takePhoto True io s)) = isRecording s
         \<and> Alert ''Error'' ''Failed to capture photo.'' \<in> set (snd (takePhoto True io s))"
  using assms
  by (auto simp: capture_throws_def takePhoto_def photo_failed_def Let_def
      split: sum.splits option.splits)

theorem takePhoto_failure_keeps_session_witness:
  "capture_throws move_throws
   \<and> fst (takePhoto True move_throws initial_session) = initial_session
   \<and> mediaUri (fst (takePhoto True move_throws initial_session)) = None
   \<and> \<not> isRecording (fst (takePhoto True move_throws initial_session))
   \<and> snd (takePhoto True move_throws initial_session)
       = [CameraTakePhoto,
          Mkdir ''/data/files/capture'',
          MoveFile ''/tmp/p1.jpg'' ''/data/files/capture/2024-05-01T10:20:30.123Z.jpg'',
          ConsoleError ''Failed to take photo:'' ''ENOENT'',
          Alert ''Error'' ''Failed to capture photo.'']"
  using takePhoto_failure_keeps_session [of move_throws initial_session]
  by (simp add: capture_throws_def move_throws_def photo_ok_def takePhoto_def
      photo_failed_def initial_session_def Let_def)

text \<open>
  C4, as stated, fails twice. \<^verbatim>\<open>takePhoto\<close> never writes the recording flag, and the
  Capture Photo button is on screen while a recording runs: a successful capture in
  the session that \<^verbatim>\<open>startRecording\<close> leaves ends with the flag still true. And the
  reference stored is not the path of the moved file but that path behind \<^verbatim>\<open>file://\<close>.
\<close>

theorem takePhoto_success_counterexample:
  "capture_succeeds photo_ok
   \<and> CapturePhoto \<in> set (buttons (App granted recording_session))
   \<and> isRecording (fst (takePhoto True photo_ok recording_session))
   \<and> mediaUri (fst (takePhoto True photo_ok recording_session))
       \<noteq> Some ''/data/files/capture/2024-05-01T10:20:30.123Z.jpg''"
  by (simp add: capture_succeeds_def photo_ok_def takePhoto_def recording_session_eq
      App_def granted_def truthy_def Let_def)

text \<open>
  C4, amended. When no step of \<^verbatim>\<open>takePhoto\<close> throws (the camera ref being set), the
  captured-media reference afterwards is \<^verbatim>\<open>file://\<close> followed by
  \<^verbatim>\<open><document directory>/capture/<toISOString of the current date>.jpg\<close>, it ends with
  \<^verbatim>\<open>.jpg\<close>, and the recording flag is what it was before: false if it was false.
\<close>

theorem takePhoto_success_sets_jpg_uri:
  assumes "capture_succeeds io"
  shows "mediaUri (fst (takePhoto True io s))
           = Some (''file://'' @ DocumentDirectoryPath io @ ''/capture'' @ ''/''
                   @ toISOString io @ ''.jpg'')
         \<and> endsWith (''file://'' @ DocumentDirectoryPath io @ ''/capture'' @ ''/''
                     @ toISOString io @ ''.jpg'') ''.jpg''
         \<and> isRecording (fst (takePhoto True io s)) = isRecording s"
proof -
  from assms obtain filePath where "takePhoto_result io = Inr filePath"
    and "mkdir_result io = None" and "moveFile_result io = None"
    by (cases "takePhoto_result io") (auto simp: capture_succeeds_def)
  then have "fst (takePhoto True io s)
      = s\<lparr>mediaUri := Some (''file://'' @ DocumentDirectoryPath io @ ''/capture'' @ ''/''
            @ toISOString io @ ''.jpg'')\<rparr>"
    by (simp add: takePhoto_def Let_def)
  moreover have "endsWith (''file://'' @ DocumentDirectoryPath io @ ''/capture'' @ ''/''
      @ toISOString io @ ''.jpg'') ''.jpg''"
    using endsWith_append_jpg [of "''file://'' @ DocumentDirectoryPath io @ ''/capture'' @ ''/''
      @ toISOString io"] by simp
  ultimately show ?thesis by simp
qed

theorem takePhoto_success_sets_jpg_uri_witness:
  "capture_succeeds photo_ok
   \<and> mediaUri (fst (takePhoto True photo_ok initial_session))
       = Some ''file:///data/files/capture/2024-05-01T10:20:30.123Z.jpg''
   \<and> endsWith ''file:///data/files/capture/2024-05-01T10:20:30.123Z.jpg'' ''.jpg''
   \<and> \<not> isRecording (fst (takePhoto True photo_ok initial_session))"
  using takePhoto_success_sets_jpg_uri [of photo_ok initial_session]
  by (simp add: capture_succeeds_def photo_ok_def initial_session_def)

subsection \<open>The review view\<close>

text \<open>
  The Record Video button is rendered only on the screen: with permission granted and
  a device for the selected lens.
\<close>

lemma record_button_needs_screen:
  assumes "RecordVideo \<in> set (buttons (App h s))"
  shows "hasPermission h \<and> (\<exists>device. useCameraDevice h (cameraType s) = Some device)"
proof (cases "hasPermission h")
  case False
  with assms show ?thesis by (simp add: App_def)
next
  case True
  with assms show ?thesis
    by (cases "useCameraDevice h (cameraType s)") (simp_all add: App_def)
qed

text \<open>
  C5. After a whole recording (\<^verbatim>\<open>startRecording\<close>, then \<^verbatim>\<open>stopRecording\<close>, which calls
  the camera's stop, then \<^verbatim>\<open>onRecordingFinished\<close> with the path of the video file) the
  captured-media reference is \<^verbatim>\<open>file://\<close> followed by that path, a non-null string that
  does not end with \<^verbatim>\<open>.jpg\<close>; the recording flag is false; and the screen shows the
  video player with playback controls, not the still image, with the Back button. The
  screen is there with permission granted and a device present, as they are wherever
  the Record Video button was to be pressed.
\<close>

theorem recording_finished_shows_player:
  assumes "video_file_path video_path"
    and "hasPermission h"
    and "useCameraDevice h (cameraType s) = Some device"
  shows "snd (startRecording True None s) = [CameraStartRecording]
         \<and> snd (stopRecording True None (fst (startRecording True None s)))
             = [CameraStopRecording]
         \<and> mediaUri (record_stop_finished video_path s) = Some (''file://'' @ video_path)
         \<and> \<not> endsWith (''file://'' @ video_path) ''.jpg''
         \<and> \<not> isRecording (record_stop_finished video_path s)
         \<and> App h (record_stop_finished video_path s)
             = Screen (Video (''file://'' @ video_path) True) [GoBack]
         \<and> video_player_shown (App h (record_stop_finished video_path s))"
proof -
  have started: "startRecording True None s = (s\<lparr>isRecording := True\<rparr>, [CameraStartRecording])"
    by (simp add: startRecording_def)
  have stopped: "stopRecording True None (s\<lparr>isRecording := True\<rparr>)
      = (s\<lparr>isRecording := True\<rparr>, [CameraStopRecording])"
    by (simp add: stopRecording_def)
  have fin: "record_stop_finished video_path s
      = s\<lparr>mediaUri := Some (''file://'' @ video_path), isRecording := False\<rparr>"
    by (simp add: record_stop_finished_def started stopped onRecordingFinished_def)
  have "\<not> endsWith video_path ''.jpg''"
    using assms(1) by (simp add: video_file_path_def)
  then have no_jpg: "\<not> endsWith (''file://'' @ video_path) ''.jpg''"
    unfolding endsWith_file_uri .
  have view: "App h (record_stop_finished video_path s)
      = Screen (Video (''file://'' @ video_path) True) [GoBack]"
    unfolding fin using assms(2,3) no_jpg by (simp add: App_def truthy_def)
  show ?thesis
    using started stopped fin no_jpg view by simp
qed

theorem recording_finished_shows_player_witness:
  "video_file_path ''/tmp/v.mov''
   \<and> RecordVideo \<in> set (buttons (App granted initial_session))
   \<and> hasPermission granted
   \<and> useCameraDevice granted (cameraType initial_session) = Some 0
   \<and> mediaUri video_session = Some ''file:///tmp/v.mov''
   \<and> \<not> endsWith ''file:///tmp/v.mov'' ''.jpg''
   \<and> \<not> isRecording video_session
   \<and> App granted video_session = Screen (Video ''file:///tmp/v.mov'' True) [GoBack]
   \<and> video_player_shown (App granted video_session)"
proof -
  have a: "video_file_path ''/tmp/v.mov''"
    by (simp add: video_file_path_def endsWith_def)
  have b: "hasPermission granted" by (simp add: granted_def)
  have c: "useCameraDevice granted (cameraType initial_session) = Some 0"
    by (simp add: granted_def)
  have r: "RecordVideo \<in> set (buttons (App granted initial_session))"
    by (simp add: App_def granted_def initial_session_def truthy_def)
  show ?thesis
    using recording_finished_shows_player [OF a b c] a b c r
    by (simp add: video_session_def)
qed

text \<open>
  C8. Without camera permission the component returns the text
  "Please grant camera permission." and nothing else: no camera preview is mounted,
  whatever the session holds and whatever devices exist.
\<close>

theorem no_permission_view:
  assumes "\<not> hasPermission h"
  shows "App h s = Message ''Please grant camera permission.''
         \<and> \<not> camera_mounted (App h s)
         \<and> buttons (App h s) = []"
  using assms by (simp add: App_def)

theorem no_permission_view_witness:
  "\<not> hasPermission denied
   \<and> App denied video_session = Message ''Please grant camera permission.''
   \<and> \<not> camera_mounted (App denied video_session)
   \<and> buttons (App denied video_session) = []
   \<and> camera_mounted (App granted initial_session)"
  using no_permission_view [of denied video_session]
  by (simp add: denied_def granted_def App_def initial_session_def)

text \<open>
  C9. The Back button's handler sets the captured-media reference to null whatever it
  was, and the screen (which is where the button is: permission granted, device
  present) then shows the live camera preview with the capture controls, after a
  photo as after a video.
\<close>

theorem clearCapture_returns_to_preview:
  assumes "hasPermission h"
    and "useCameraDevice h (cameraType s) = Some device"
  shows "mediaUri (clearCapture s) = None
         \<and> App h (clearCapture s)
             = Screen (Camera device True (zoom s))
                 [Switch, ZoomIn, ZoomOut,
                  (if isRecording s then StopRecording else RecordVideo), CapturePhoto]
         \<and> camera_mounted (App h (clearCapture s))"
  using assms by (simp add: clearCapture_def App_def truthy_def)

lemma photo_session_eq:
  "photo_session
     = \<lparr>cameraType = Back, zoom = 0,
        mediaUri = Some ''file:///data/files/capture/2024-05-01T10:20:30.123Z.jpg'',
        isRecording = False\<rparr>"
  by (simp add: photo_session_def takePhoto_def photo_ok_def initial_session_def Let_def)

lemma video_session_eq:
  "video_session
     = \<lparr>cameraType = Back, zoom = 0, mediaUri = Some ''file:///tmp/v.mov'',
        isRecording = False\<rparr>"
  by (simp add: video_session_def record_stop_finished_def startRecording_def
      stopRecording_def onRecordingFinished_def initial_session_def)

theorem clearCapture_returns_to_preview_witness:
  "hasPermission granted
   \<and> useCameraDevice granted (cameraType photo_session) = Some 0
   \<and> useCameraDevice granted (cameraType video_session) = Some 0
   \<and> App granted photo_session
       = Screen (Image ''file:///data/files/capture/2024-05-01T10:20:30.123Z.jpg'') [GoBack]
   \<and> App granted video_session = Screen (Video ''file:///tmp/v.mov'' True) [GoBack]
   \<and> mediaUri (clearCapture photo_session) = None
   \<and> mediaUri (clearCapture video_session) = None
   \<and> App granted (clearCapture photo_session)
       = Screen (Camera 0 True 0) [Switch, ZoomIn, ZoomOut, RecordVideo, CapturePhoto]
   \<and> App granted (clearCapture video_session)
       = Screen (Camera 0 True 0) [Switch, ZoomIn, ZoomOut, RecordVideo, CapturePhoto]"
proof -
  have p: "hasPermission granted" by (simp add: granted_def)
  have d1: "useCameraDevice granted (cameraType photo_session) = Some 0"
    by (simp add: granted_def)
  have d2: "useCameraDevice granted (cameraType video_session) = Some 0"
    by (simp add: granted_def)
  have v1: "App granted photo_session
      = Screen (Image ''file:///data/files/capture/2024-05-01T10:20:30.123Z.jpg'') [GoBack]"
    by (simp add: photo_session_eq App_def granted_def truthy_def endsWith_def)
  have v2: "App granted video_session = Screen (Video ''file:///tmp/v.mov'' True) [GoBack]"
    by (simp add: video_session_eq App_def granted_def truthy_def endsWith_def)
  show ?thesis
    using clearCapture_returns_to_preview [OF p d1] clearCapture_returns_to_preview [OF p d2]
      p d1 d2 v1 v2
    by (simp add: photo_session_eq video_session_eq)
qed

end
